theory Spec2Isabelle
  imports Complex_Main "HOL-Library.Char_ord" "HOL-Library.List_Lexorder"
begin

section \<open>The GRFN notebook: catalog, lazy dataset, mask, window and point extraction\<close>

text \<open>
  The notebook \<^verbatim>\<open>notebooks/0-GRFN-demo.ipynb\<close> is glue code around pandas, intake,
  xarray and rasterio. The functions the notebook defines (\<^verbatim>\<open>parse_name\<close>,
  \<^verbatim>\<open>make_dataframe\<close>, \<^verbatim>\<open>create_dataset\<close>, \<^verbatim>\<open>get_src\<close>, \<^verbatim>\<open>get_window\<close>,
  \<^verbatim>\<open>save_current_view\<close>) and its top-level cells are translated line by line. A library
  call is either a parameter of the translation (so are the calls whose result hangs on
  floating-point rounding or on the file system) or a definition that follows the library's
  documented behaviour on exact numbers (rationals for coordinates and pixel values); each
  such definition says so. Every exception of the Python code is a value \<open>Inl e\<close>.
\<close>

datatype error =
    KeyError | ValueError | TypeError | IndexError | AttributeError | IOError
  | AffineError | Unmodelled

fun traverse :: "('a \<Rightarrow> error + 'b) \<Rightarrow> 'a list \<Rightarrow> error + 'b list" where
  "traverse f [] = Inr []"
| "traverse f (x # xs) =
     (case f x of
        Inl e \<Rightarrow> Inl e
      | Inr y \<Rightarrow> (case traverse f xs of Inl e \<Rightarrow> Inl e | Inr ys \<Rightarrow> Inr (y # ys)))"

subsection \<open>Calendar dates (Python \<^verbatim>\<open>datetime\<close>)\<close>

text \<open>
  The template only has \<^verbatim>\<open>%Y%m%d\<close> fields, so every parsed \<^verbatim>\<open>datetime\<close> is a calendar day
  at midnight, and the difference of two of them is a whole number of days. The ordinal of a
  day follows \<^verbatim>\<open>datetime.date.toordinal\<close> (proleptic Gregorian, 0001-01-01 is day 1).
\<close>

record date =
  year :: nat
  month :: nat
  day :: nat

definition is_leap :: "nat \<Rightarrow> bool" where
  "is_leap y \<longleftrightarrow> y mod 4 = 0 \<and> (y mod 100 \<noteq> 0 \<or> y mod 400 = 0)"

definition days_in_month :: "nat \<Rightarrow> nat \<Rightarrow> nat" where
  "days_in_month y m =
     (if m = 2 then (if is_leap y then 29 else 28)
      else if m = 4 \<or> m = 6 \<or> m = 9 \<or> m = 11 then 30 else 31)"

definition days_before_year :: "nat \<Rightarrow> int" where
  "days_before_year y =
     (let p = int y - 1 in p * 365 + p div 4 - p div 100 + p div 400)"

definition days_before_month :: "nat \<Rightarrow> nat \<Rightarrow> int" where
  "days_before_month y m = int (sum_list (map (days_in_month y) [1..<m]))"

definition toordinal :: "date \<Rightarrow> int" where
  "toordinal d = days_before_year (year d) + days_before_month (year d) (month d) + int (day d)"

definition valid_date :: "nat \<Rightarrow> nat \<Rightarrow> nat \<Rightarrow> bool" where
  "valid_date y m d \<longleftrightarrow>
     1 \<le> y \<and> y \<le> 9999 \<and> 1 \<le> m \<and> m \<le> 12 \<and> 1 \<le> d \<and> d \<le> days_in_month y m"

subsection \<open>\<^verbatim>\<open>datetime.strptime(s, '%Y%m%d')\<close>\<close>

text \<open>
  Python compiles the format to the regular expression
  \<^verbatim>\<open>(\d\d\d\d)(1[0-2]|0[1-9]|[1-9])(3[01]|[12]\d|0[1-9]|[1-9]| [1-9])\<close>, takes the first
  match of a prefix of the string in the order of the alternatives, rejects a string with
  unconverted data after the match, and then builds the date, which rejects a day that
  the month does not have. Characters are bytes here, so a digit is an ASCII digit.
\<close>

definition is_digit :: "char \<Rightarrow> bool" where
  "is_digit c \<longleftrightarrow> CHR ''0'' \<le> c \<and> c \<le> CHR ''9''"

definition digit_val :: "char \<Rightarrow> nat" where
  "digit_val c = of_char c - of_char (CHR ''0'')"

definition match_month :: "string \<Rightarrow> (nat \<times> string) list" where
  "match_month s =
     (case s of
        c1 # c2 # r \<Rightarrow>
          (if c1 = CHR ''1'' \<and> (c2 = CHR ''0'' \<or> c2 = CHR ''1'' \<or> c2 = CHR ''2'')
           then [(10 + digit_val c2, r)] else [])
          @ (if c1 = CHR ''0'' \<and> is_digit c2 \<and> c2 \<noteq> CHR ''0'' then [(digit_val c2, r)] else [])
      | _ \<Rightarrow> [])
     @ (case s of
          c1 # r \<Rightarrow> (if is_digit c1 \<and> c1 \<noteq> CHR ''0'' then [(digit_val c1, r)] else [])
        | _ \<Rightarrow> [])"

definition match_day :: "string \<Rightarrow> (nat \<times> string) list" where
  "match_day s =
     (case s of
        c1 # c2 # r \<Rightarrow>
          (if c1 = CHR ''3'' \<and> (c2 = CHR ''0'' \<or> c2 = CHR ''1'')
           then [(30 + digit_val c2, r)] else [])
          @ (if (c1 = CHR ''1'' \<or> c1 = CHR ''2'') \<and> is_digit c2
             then [(10 * digit_val c1 + digit_val c2, r)] else [])
          @ (if c1 = CHR ''0'' \<and> is_digit c2 \<and> c2 \<noteq> CHR ''0'' then [(digit_val c2, r)] else [])
      | _ \<Rightarrow> [])
     @ (case s of
          c1 # r \<Rightarrow> (if is_digit c1 \<and> c1 \<noteq> CHR ''0'' then [(digit_val c1, r)] else [])
        | _ \<Rightarrow> [])
     @ (case s of
          c1 # c2 # r \<Rightarrow>
            (if c1 = CHR '' '' \<and> is_digit c2 \<and> c2 \<noteq> CHR ''0'' then [(digit_val c2, r)] else [])
        | _ \<Rightarrow> [])"

definition strptime :: "string \<Rightarrow> error + date" where
  "strptime s =
     (case s of
        y1 # y2 # y3 # y4 # r \<Rightarrow>
          (if is_digit y1 \<and> is_digit y2 \<and> is_digit y3 \<and> is_digit y4 then
             (case concat (map (\<lambda>(m, r1). map (\<lambda>(d, r2). (m, d, r2)) (match_day r1))
                               (match_month r)) of
                [] \<Rightarrow> Inl ValueError
              | (m, d, rest) # _ \<Rightarrow>
                  (let y = 1000 * digit_val y1 + 100 * digit_val y2
                           + 10 * digit_val y3 + digit_val y4
                   in if rest \<noteq> [] then Inl ValueError
                      else if valid_date y m d then Inr \<lparr>year = y, month = m, day = d\<rparr>
                      else Inl ValueError))
           else Inl ValueError)
      | _ \<Rightarrow> Inl ValueError)"

subsection \<open>\<^verbatim>\<open>parse_name\<close> and \<^verbatim>\<open>make_dataframe\<close>\<close>

text \<open>
  A value of the dictionary that \<^verbatim>\<open>intake.source.utils.reverse_format\<close> returns: a string,
  or the \<^verbatim>\<open>datetime\<close> of a field with a \<^verbatim>\<open>%\<close> format.
\<close>

datatype pyval = Str string | Datetime date

type_synonym parsed = "string \<rightharpoonup> pyval"

definition pattern :: string where
  "pattern = ''{project}/{bucket}/{date1:%Y%m%d}-{date2:%Y%m%d}-{format}''"

text \<open>
  \<^verbatim>\<open>parse_name(gsPath, key)\<close>. The library function \<^verbatim>\<open>reverse_format\<close> is the parameter
  \<open>rf\<close>; \<^verbatim>\<open>parsed[key]\<close> raises \<^verbatim>\<open>KeyError\<close> on a missing key.
\<close>

definition parse_name ::
  "(string \<Rightarrow> string \<Rightarrow> error + parsed) \<Rightarrow> string \<Rightarrow> string \<Rightarrow> error + pyval" where
  "parse_name rf gsPath key =
     (case rf pattern gsPath of
        Inl e \<Rightarrow> Inl e
      | Inr p \<Rightarrow> (case p key of None \<Rightarrow> Inl KeyError | Some val \<Rightarrow> Inr val))"

text \<open>
  \<^verbatim>\<open>df.date1 - df.date2\<close>, one element: the difference of two datetimes is a timedelta, here
  a number of days; a string operand raises \<^verbatim>\<open>TypeError\<close>.
\<close>

fun sub_val :: "pyval \<Rightarrow> pyval \<Rightarrow> error + int" where
  "sub_val (Datetime a) (Datetime b) = Inr (toordinal a - toordinal b)"
| "sub_val _ _ = Inl TypeError"

record row =
  gs :: string
  url :: string
  date1 :: pyval
  date2 :: pyval
  dt :: int

text \<open>
  \<^verbatim>\<open>make_dataframe(images)\<close>. \<^verbatim>\<open>sort_values('gs').reset_index(drop=True)\<close> orders the keys
  as Python orders strings (by code point, a proper prefix first), which is the order of
  \<open>string\<close> here; the columns are then computed one after the other, each over all rows.
\<close>

definition make_dataframe ::
  "(string \<Rightarrow> string \<Rightarrow> error + parsed) \<Rightarrow> string list \<Rightarrow> error + row list" where
  "make_dataframe rf images =
     (let keys = sort images;
          urls = map (\<lambda>k. ''http://storage.googleapis.com/'' @ k) keys
      in case traverse (\<lambda>k. parse_name rf k ''date1'') keys of
           Inl e \<Rightarrow> Inl e
         | Inr d1s \<Rightarrow>
             (case traverse (\<lambda>k. parse_name rf k ''date2'') keys of
                Inl e \<Rightarrow> Inl e
              | Inr d2s \<Rightarrow>
                  (case traverse (\<lambda>(a, b). sub_val a b) (zip d1s d2s) of
                     Inl e \<Rightarrow> Inl e
                   | Inr dts \<Rightarrow>
                       Inr (map (\<lambda>(k, u, a, b, t).
                                   \<lparr>gs = k, url = u, date1 = a, date2 = b, dt = t\<rparr>)
                                (zip keys (zip urls (zip d1s (zip d2s dts))))))))"

text \<open>
  \<^verbatim>\<open>reverse_format\<close> on the notebook's template, following the library: the resolved string
  is cut at the first occurrence of each literal of the template in turn (\<^verbatim>\<open>/\<close>, \<^verbatim>\<open>/\<close>,
  \<^verbatim>\<open>-\<close>, \<^verbatim>\<open>-\<close>; a missing literal raises \<^verbatim>\<open>ValueError\<close>), a field with a \<^verbatim>\<open>%\<close> format
  goes through \<^verbatim>\<open>strptime\<close>, and a field whose conversion raises keeps its text. Only this
  template is modelled (another one is \<open>Inl Unmodelled\<close>), and only keys whose components
  between the separators are not empty are in the domain of the model.
\<close>

fun split_first :: "char \<Rightarrow> string \<Rightarrow> (string \<times> string) option" where
  "split_first sep [] = None"
| "split_first sep (c # cs) =
     (if c = sep then Some ([], cs)
      else (case split_first sep cs of
              None \<Rightarrow> None
            | Some (a, b) \<Rightarrow> Some (c # a, b)))"

definition convert_date :: "string \<Rightarrow> pyval" where
  "convert_date s = (case strptime s of Inr d \<Rightarrow> Datetime d | Inl _ \<Rightarrow> Str s)"

definition reverse_format :: "string \<Rightarrow> string \<Rightarrow> error + parsed" where
  "reverse_format fmt s =
     (if fmt \<noteq> pattern then Inl Unmodelled
      else case split_first (CHR ''/'') s of
        None \<Rightarrow> Inl ValueError
      | Some (project, t1) \<Rightarrow>
      (case split_first (CHR ''/'') t1 of
        None \<Rightarrow> Inl ValueError
      | Some (bucket, t2) \<Rightarrow>
      (case split_first (CHR ''-'') t2 of
        None \<Rightarrow> Inl ValueError
      | Some (d1, t3) \<Rightarrow>
      (case split_first (CHR ''-'') t3 of
        None \<Rightarrow> Inl ValueError
      | Some (d2, fmt_field) \<Rightarrow>
          Inr (map_of [(''project'', Str project), (''bucket'', Str bucket),
                       (''date1'', convert_date d1), (''date2'', convert_date d2),
                       (''format'', Str fmt_field)])))))"

subsection \<open>Raster files as rasterio opens them\<close>

text \<open>
  An affine transform maps (column, row) to (x, y):
  \<open>x = a * col + b * row + c\<close>, \<open>y = d * col + e * row + f\<close>. A pixel value is a number or
  the missing-data marker; numbers are exact rationals.
\<close>

record affine =
  coef_a :: rat
  coef_b :: rat
  coef_c :: rat
  coef_d :: rat
  coef_e :: rat
  coef_f :: rat

datatype px = NaN | Val rat

datatype pval = PStr string | PInt int | PNum px | PBool bool | PTransform affine | PNone

text \<open>
  What \<^verbatim>\<open>rasterio.open(url)\<close> gives (\<^verbatim>\<open>src\<close>): name, band count, size, transform,
  coordinate reference system, nodata value, the profile dictionary and the pixels
  (band, row, column). The object store maps a URL to its file.
\<close>

record raster_file =
  name :: string
  count :: nat
  width :: nat
  height :: nat
  transform :: affine
  crs :: string
  nodata :: "px option"
  profile :: "string \<rightharpoonup> pval"
  bands :: "px list list list"

type_synonym store = "string \<rightharpoonup> raster_file"

definition rasterio_open :: "store \<Rightarrow> string \<Rightarrow> error + raster_file" where
  "rasterio_open st u = (case st u of None \<Rightarrow> Inl IOError | Some f \<Rightarrow> Inr f)"

definition apply_affine :: "affine \<Rightarrow> rat \<Rightarrow> rat \<Rightarrow> rat \<times> rat" where
  "apply_affine t col r =
     (coef_a t * col + coef_b t * r + coef_c t, coef_d t * col + coef_e t * r + coef_f t)"

text \<open>The spatial grid of a file: its transform and its size.\<close>

definition grid :: "raster_file \<Rightarrow> affine \<times> nat \<times> nat" where
  "grid f = (transform f, width f, height f)"

definition shape :: "raster_file \<Rightarrow> nat \<times> nat" where
  "shape f = (height f, width f)"

subsection \<open>\<^verbatim>\<open>xr.open_rasterio\<close>, \<^verbatim>\<open>to_dataset\<close>, \<^verbatim>\<open>xr.concat\<close>\<close>

text \<open>
  A \<^verbatim>\<open>DataArray\<close> with dimensions (band, y, x). The band coordinate is \<open>1..count\<close>. The y
  and x coordinates are present only when coordinates are parsed and the transform is
  rectilinear (xarray tests \<^verbatim>\<open>transform.is_rectilinear\<close>, with the library's precision
  \<open>10\<^sup>-\<^sup>5\<close>); they are the pixel centres. The chunk sizes only shape the lazy reads and
  are left out.
\<close>

record data_array =
  da_band :: "int list"
  da_y :: "rat list option"
  da_x :: "rat list option"
  da_ny :: nat
  da_nx :: nat
  da_values :: "px list list list"

definition is_rectilinear :: "affine \<Rightarrow> bool" where
  "is_rectilinear t \<longleftrightarrow>
     (\<bar>coef_a t\<bar> < 1 / 100000 \<and> \<bar>coef_e t\<bar> < 1 / 100000)
     \<or> (\<bar>coef_d t\<bar> < 1 / 100000 \<and> \<bar>coef_b t\<bar> < 1 / 100000)"

definition x_centres :: "raster_file \<Rightarrow> rat list" where
  "x_centres f = map (\<lambda>i. fst (apply_affine (transform f) (of_nat i + 1 / 2) (1 / 2)))
                     [0..<width f]"

definition y_centres :: "raster_file \<Rightarrow> rat list" where
  "y_centres f = map (\<lambda>j. snd (apply_affine (transform f) (1 / 2) (of_nat j + 1 / 2)))
                     [0..<height f]"

definition data_array_of :: "raster_file \<Rightarrow> bool \<Rightarrow> data_array" where
  "data_array_of f parse_coordinates =
     (let parse = parse_coordinates \<and> is_rectilinear (transform f)
      in \<lparr>da_band = map int [1..<count f + 1],
          da_y = (if parse then Some (y_centres f) else None),
          da_x = (if parse then Some (x_centres f) else None),
          da_ny = height f, da_nx = width f,
          da_values = bands f\<rparr>)"

definition open_rasterio :: "store \<Rightarrow> string \<Rightarrow> bool \<Rightarrow> error + data_array" where
  "open_rasterio st u parse_coordinates =
     (case rasterio_open st u of
        Inl e \<Rightarrow> Inl e
      | Inr f \<Rightarrow> Inr (data_array_of f parse_coordinates))"

text \<open>
  A \<^verbatim>\<open>Dataset\<close> with the one data variable \<^verbatim>\<open>unw\<close> and, once attached, the coordinate
  \<^verbatim>\<open>mask\<close> on (y, x).
\<close>

record dataset =
  band_coord :: "int list"
  y_coord :: "rat list option"
  x_coord :: "rat list option"
  y_size :: nat
  x_size :: nat
  unw :: "px list list list"
  mask_coord :: "bool list list option"

definition to_dataset :: "data_array \<Rightarrow> dataset" where
  "to_dataset da =
     \<lparr>band_coord = da_band da, y_coord = da_y da, x_coord = da_x da,
      y_size = da_ny da, x_size = da_nx da, unw = da_values da, mask_coord = None\<rparr>"

text \<open>
  The alignment that \<^verbatim>\<open>xr.concat\<close> runs on every dimension but the concatenated one
  (\<^verbatim>\<open>align(..., join='outer', exclude=['band'])\<close>). Objects with labels along the dimension
  contribute their index, the others their size. Without any index the sizes must agree;
  with one index every unlabelled size must equal the size of that index; both failures
  raise \<^verbatim>\<open>ValueError\<close>. No coordinate value of an unlabelled object is compared, as it
  has none. Several different indexes would be joined and the data reindexed; that case
  does not arise in the notebook and is \<open>Inl Unmodelled\<close>.
\<close>

definition align_dim :: "(rat list option \<times> nat) list \<Rightarrow> error + rat list option" where
  "align_dim objs =
     (let labelled = concat (map (\<lambda>(c, n). case c of None \<Rightarrow> [] | Some i \<Rightarrow> [i]) objs);
          unlabelled = concat (map (\<lambda>(c, n). case c of None \<Rightarrow> [n] | Some i \<Rightarrow> []) objs)
      in case labelled of
           [] \<Rightarrow> (if length (remdups unlabelled) > 1 then Inl ValueError else Inr None)
         | i0 # rest \<Rightarrow>
             (if list_ex (\<lambda>i. i \<noteq> i0) rest then Inl Unmodelled
              else if list_ex (\<lambda>n. n \<noteq> length i0) unlabelled then Inl ValueError
              else Inr (Some i0)))"

text \<open>
  \<^verbatim>\<open>xr.concat(datasets, dim='band')\<close>: after the alignment the variables are stacked along
  \<^verbatim>\<open>band\<close> in the order of the list, the band labels likewise, and the other coordinates
  are those of the aligned objects. Datasets that carry further coordinates are not
  modelled.
\<close>

definition xr_concat :: "dataset list \<Rightarrow> error + dataset" where
  "xr_concat dss =
     (case dss of
        [] \<Rightarrow> Inl ValueError
      | d0 # _ \<Rightarrow>
          (if list_ex (\<lambda>ds. mask_coord ds \<noteq> None) dss then Inl Unmodelled
           else case align_dim (map (\<lambda>ds. (y_coord ds, y_size ds)) dss) of
             Inl e \<Rightarrow> Inl e
           | Inr yc \<Rightarrow>
               (case align_dim (map (\<lambda>ds. (x_coord ds, x_size ds)) dss) of
                  Inl e \<Rightarrow> Inl e
                | Inr xc \<Rightarrow>
                    Inr \<lparr>band_coord = concat (map band_coord dss),
                         y_coord = yc, x_coord = xc,
                         y_size = y_size d0, x_size = x_size d0,
                         unw = concat (map unw dss), mask_coord = None\<rparr>)))"

text \<open>
  \<^verbatim>\<open>ds.coords['band'] = np.arange(n)\<close>: the new labels must have the size of the dimension.
\<close>

definition assign_band :: "dataset \<Rightarrow> nat \<Rightarrow> error + dataset" where
  "assign_band ds n =
     (if n \<noteq> length (unw ds) then Inl ValueError
      else Inr (ds\<lparr>band_coord := map int [0..<n]\<rparr>))"

subsection \<open>\<^verbatim>\<open>create_dataset\<close>\<close>

text \<open>
  \<^verbatim>\<open>create_dataset(df, chunks)\<close>: the first image is opened with its coordinates parsed
  (\<^verbatim>\<open>df.url[0]\<close> raises \<^verbatim>\<open>KeyError\<close> on an empty catalog), every other one with
  \<^verbatim>\<open>parse_coordinates=False\<close>, in catalog order; then \<^verbatim>\<open>xr.concat\<close> and the relabelling of
  \<^verbatim>\<open>band\<close> by \<^verbatim>\<open>np.arange(len(df))\<close>. The progress bar is display only.
\<close>

definition create_dataset :: "store \<Rightarrow> row list \<Rightarrow> error + dataset" where
  "create_dataset st df =
     (case df of
        [] \<Rightarrow> Inl KeyError
      | r0 # rest \<Rightarrow>
          (case open_rasterio st (url r0) True of
             Inl e \<Rightarrow> Inl e
           | Inr da \<Rightarrow>
               (case traverse (\<lambda>r. open_rasterio st (url r) False) rest of
                  Inl e \<Rightarrow> Inl e
                | Inr das \<Rightarrow>
                    (case xr_concat (to_dataset da # map to_dataset das) of
                       Inl e \<Rightarrow> Inl e
                     | Inr ds \<Rightarrow> assign_band ds (length df)))))"

subsection \<open>The water mask\<close>

text \<open>
  \<^verbatim>\<open>rasterio.mask.mask(src, shapes, indexes=1)\<close> with its defaults (no crop, no invert,
  filled). The library rasterises the shapes on the grid of \<^verbatim>\<open>src\<close>; the result of that
  rasterisation is the parameter \<open>outside\<close>: \<open>outside i j\<close> holds when the pixel in row
  \<open>i\<close> and column \<open>j\<close> lies outside every shape (the shapes being the polygons already
  reprojected by \<^verbatim>\<open>gf.to_crs(src.crs)\<close>). Band 1 is read masked, that is with the pixels
  equal to the nodata value of the file marked; the pixels outside the shapes are marked
  too; every marked pixel is then filled with the nodata value of the file, or with 0
  when the file has none. The result has the shape of the raster.
\<close>

definition rio_mask :: "raster_file \<Rightarrow> (nat \<Rightarrow> nat \<Rightarrow> bool) \<Rightarrow> error + px list list" where
  "rio_mask src outside =
     (case bands src of
        [] \<Rightarrow> Inl IndexError
      | b1 # _ \<Rightarrow>
          (let fill = (case nodata src of None \<Rightarrow> Val 0 | Some n \<Rightarrow> n)
           in Inr (map (\<lambda>i. map (\<lambda>j. if nodata src = Some (b1 ! i ! j) \<or> outside i j
                                      then fill else b1 ! i ! j)
                                 [0..<width src])
                       [0..<height src])))"

text \<open>\<^verbatim>\<open>water = (out_image == 0)\<close>; the comparison of the missing-data marker with 0 is false.\<close>

definition water_of :: "px list list \<Rightarrow> bool list list" where
  "water_of out_image = map (map (\<lambda>v. v = Val 0)) out_image"

text \<open>
  \<^verbatim>\<open>DS.coords['mask'] = (('y', 'x'), water)\<close>: xarray rejects an array whose shape is not
  the size of (y, x).
\<close>

definition attach_mask :: "dataset \<Rightarrow> bool list list \<Rightarrow> error + dataset" where
  "attach_mask ds water =
     (if length water = y_size ds \<and> list_all (\<lambda>r. length r = x_size ds) water
      then Inr (ds\<lparr>mask_coord := Some water\<rparr>) else Inl ValueError)"

text \<open>
  The cell that builds the mask from the first image of the catalog
  (\<^verbatim>\<open>df.url.iloc[0]\<close> raises \<^verbatim>\<open>IndexError\<close> on an empty catalog).
\<close>

definition mask_layer ::
  "store \<Rightarrow> row list \<Rightarrow> (nat \<Rightarrow> nat \<Rightarrow> bool) \<Rightarrow> error + bool list list" where
  "mask_layer st df outside =
     (case df of
        [] \<Rightarrow> Inl IndexError
      | r0 # _ \<Rightarrow>
          (case rasterio_open st (url r0) of
             Inl e \<Rightarrow> Inl e
           | Inr src \<Rightarrow>
               (case rio_mask src outside of
                  Inl e \<Rightarrow> Inl e
                | Inr out_image \<Rightarrow> Inr (water_of out_image))))"

text \<open>
  \<^verbatim>\<open>DS.where(DS.mask == False)\<close>: the mask on (y, x) is broadcast over the bands; a value is
  kept where the condition holds and replaced by the missing-data marker elsewhere. The
  coordinates, the mask among them, are kept. \<^verbatim>\<open>DS.mask\<close> raises \<^verbatim>\<open>AttributeError\<close> when no
  mask is attached. The rechunking that follows does not change any value.
\<close>

definition where_image :: "bool list list \<Rightarrow> nat \<Rightarrow> nat \<Rightarrow> px list list \<Rightarrow> px list list" where
  "where_image m n_y n_x img =
     map (\<lambda>i. map (\<lambda>j. if m ! i ! j = False then img ! i ! j else NaN) [0..<n_x]) [0..<n_y]"

definition where_mask :: "dataset \<Rightarrow> error + dataset" where
  "where_mask ds =
     (case mask_coord ds of
        None \<Rightarrow> Inl AttributeError
      | Some m \<Rightarrow> Inr (ds\<lparr>unw := map (where_image m (y_size ds) (x_size ds)) (unw ds)\<rparr>))"

definition count_missing :: "dataset \<Rightarrow> nat" where
  "count_missing ds =
     sum_list (map (\<lambda>img. sum_list (map (\<lambda>r. length (filter (\<lambda>v. v = NaN) r)) img)) (unw ds))"

subsection \<open>Point selection, \<^verbatim>\<open>ds.sel(x=xcen, y=ycen, method='nearest')\<close>\<close>

text \<open>
  pandas looks the target up in the index of the dimension. The index must be unique and
  monotonic (\<^verbatim>\<open>ValueError\<close> otherwise); of the labels on either side of the target the
  closer one is taken, and of two equally close ones the larger. No tolerance is given, so
  no distance is too large. On a strictly monotonic index that is the position found by
  the scan below. An empty index has no label to return (\<^verbatim>\<open>KeyError\<close>), a dimension without
  labels cannot be selected with a method (\<^verbatim>\<open>TypeError\<close>).
\<close>

definition closer :: "rat list \<Rightarrow> rat \<Rightarrow> nat \<Rightarrow> nat \<Rightarrow> bool" where
  "closer xs t j i \<longleftrightarrow>
     \<bar>xs ! j - t\<bar> < \<bar>xs ! i - t\<bar> \<or> (\<bar>xs ! j - t\<bar> = \<bar>xs ! i - t\<bar> \<and> xs ! j > xs ! i)"

definition nearest_index :: "rat list \<Rightarrow> rat \<Rightarrow> error + nat" where
  "nearest_index xs t =
     (if xs = [] then Inl KeyError
      else if \<not> (sorted_wrt (<) xs \<or> sorted_wrt (>) xs) then Inl ValueError
      else Inr (fold (\<lambda>j i. if closer xs t j i then j else i) [1..<length xs] 0))"

record time_series =
  ts_x :: rat
  ts_y :: rat
  ts_band :: "int list"
  ts_unw :: "px list"

definition sel_nearest :: "dataset \<Rightarrow> rat \<Rightarrow> rat \<Rightarrow> error + time_series" where
  "sel_nearest ds xcen ycen =
     (case x_coord ds of
        None \<Rightarrow> Inl TypeError
      | Some xs \<Rightarrow>
          (case y_coord ds of
             None \<Rightarrow> Inl TypeError
           | Some ys \<Rightarrow>
               (case nearest_index xs xcen of
                  Inl e \<Rightarrow> Inl e
                | Inr ix \<Rightarrow>
                    (case nearest_index ys ycen of
                       Inl e \<Rightarrow> Inl e
                     | Inr iy \<Rightarrow>
                         Inr \<lparr>ts_x = xs ! ix, ts_y = ys ! iy, ts_band = band_coord ds,
                              ts_unw = map (\<lambda>img. img ! iy ! ix) (unw ds)\<rparr>))))"

subsection \<open>\<^verbatim>\<open>get_src\<close>, \<^verbatim>\<open>get_window\<close>, \<^verbatim>\<open>save_current_view\<close>\<close>

text \<open>
  The view state: the band shown by the plot and its range streams; a range is \<open>None\<close>
  until the user pans or zooms.
\<close>

record range_xy =
  x_range :: "(rat \<times> rat) option"
  y_range :: "(rat \<times> rat) option"

record plot =
  callback_args :: int
  streams :: "range_xy list"

text \<open>Positional access as Python does it: a negative position counts from the end.\<close>

definition iloc :: "'a list \<Rightarrow> int \<Rightarrow> error + 'a" where
  "iloc xs i =
     (if 0 \<le> i \<and> i < int (length xs) then Inr (xs ! nat i)
      else if i < 0 \<and> - i \<le> int (length xs) then Inr (xs ! nat (int (length xs) + i))
      else Inl IndexError)"

definition get_src :: "row list \<Rightarrow> plot \<Rightarrow> error + string" where
  "get_src df img = iloc (map url df) (callback_args img)"

text \<open>
  \<^verbatim>\<open>src.bounds\<close> and \<^verbatim>\<open>src.index(x, y)\<close> are rasterio's: the bounds are (left, bottom, right,
  top), the index is the (row, column) of the cell that holds the point, or an exception.
  rasterio computes both in floating point (the index through the inverse of the transform,
  rounded down), so a sum or a quotient of exact numbers does not say what they return;
  both are parameters here, \<open>bnds\<close> and \<open>idx\<close>. Coordinates are rationals, as every
  floating-point number is one.
\<close>

record window =
  col_off :: int
  row_off :: int
  win_width :: int
  win_height :: int

text \<open>
  \<^verbatim>\<open>rasterio.windows.Window(col_off, row_off, width, height)\<close> rejects a negative width or
  height with \<^verbatim>\<open>ValueError\<close>; the offsets may be negative.
\<close>

definition new_window :: "int \<Rightarrow> int \<Rightarrow> int \<Rightarrow> int \<Rightarrow> error + window" where
  "new_window c r w h =
     (if w < 0 \<or> h < 0 then Inl ValueError
      else Inr \<lparr>col_off = c, row_off = r, win_width = w, win_height = h\<rparr>)"

definition get_window ::
  "(raster_file \<Rightarrow> rat \<times> rat \<times> rat \<times> rat) \<Rightarrow> (raster_file \<Rightarrow> rat \<Rightarrow> rat \<Rightarrow> error + int \<times> int)
     \<Rightarrow> plot \<Rightarrow> raster_file \<Rightarrow> error + window" where
  "get_window bnds idx img src =
     (case iloc (streams img) 1 of
        Inl e \<Rightarrow> Inl e
      | Inr limits \<Rightarrow>
          (case (case x_range limits of
                   None \<Rightarrow> Inr (bnds src)
                 | Some (x0, x1) \<Rightarrow>
                     (case y_range limits of
                        None \<Rightarrow> Inl TypeError
                      | Some (y0, y1) \<Rightarrow> Inr (x0, y0, x1, y1))) of
             Inl e \<Rightarrow> Inl e
           | Inr (b0, b1, b2, b3) \<Rightarrow>
               (case idx src b0 b3 of
                  Inl e \<Rightarrow> Inl e
                | Inr (uly, ulx) \<Rightarrow>
                    (case idx src b2 b1 of
                       Inl e \<Rightarrow> Inl e
                     | Inr (lry, lrx) \<Rightarrow> new_window ulx uly (lrx - ulx) (lry - uly)))))"

text \<open>
  \<^verbatim>\<open>src.window_transform(window)\<close>: the transform of the source moved to the upper left
  corner of the window.
\<close>

definition window_transform :: "raster_file \<Rightarrow> window \<Rightarrow> affine" where
  "window_transform src w =
     (let (x, y) = apply_affine (transform src) (of_int (col_off w)) (of_int (row_off w))
      in (transform src)\<lparr>coef_c := x, coef_f := y\<rparr>)"

text \<open>\<^verbatim>\<open>os.path.basename\<close>: what follows the last slash.\<close>

definition basename :: "string \<Rightarrow> string" where
  "basename p = rev (takeWhile (\<lambda>c. c \<noteq> CHR ''/'') (rev p))"

text \<open>
  A two-dimensional array with its shape, the file that \<^verbatim>\<open>save_current_view\<close> writes, and
  the local directory as a map from file names.
\<close>

record array2d =
  nrows :: nat
  ncols :: nat
  cells :: "px list list"

record written =
  w_profile :: "string \<rightharpoonup> pval"
  w_band1 :: array2d

type_synonym directory = "string \<rightharpoonup> written"

text \<open>
  \<^verbatim>\<open>save_current_view(img)\<close>. The windowed read \<^verbatim>\<open>src.read(1, window=window)\<close> is the
  parameter \<open>rd\<close>. Creating the local file and writing the band
  (\<^verbatim>\<open>rasterio.open(localname, 'w', **profile)\<close> and \<^verbatim>\<open>dst.write_band(1, data)\<close>) is the
  parameter \<open>wr\<close>: it gives the exception the library raises (as it does for an empty
  array), or \<open>None\<close> when the file is written; only then does the directory hold the file,
  with the profile and the band it was given. The catalog \<^verbatim>\<open>df\<close>, which \<^verbatim>\<open>get_src\<close> takes
  from the global scope, the object store and the local directory are passed explicitly.
\<close>

definition save_current_view ::
  "(raster_file \<Rightarrow> rat \<times> rat \<times> rat \<times> rat) \<Rightarrow> (raster_file \<Rightarrow> rat \<Rightarrow> rat \<Rightarrow> error + int \<times> int)
     \<Rightarrow> (raster_file \<Rightarrow> window \<Rightarrow> error + array2d)
     \<Rightarrow> (string \<Rightarrow> (string \<rightharpoonup> pval) \<Rightarrow> array2d \<Rightarrow> error option)
     \<Rightarrow> store \<Rightarrow> row list \<Rightarrow> plot \<Rightarrow> directory \<Rightarrow> error + string \<times> directory" where
  "save_current_view bnds idx rd wr st df img dir =
     (case get_src df img of
        Inl e \<Rightarrow> Inl e
      | Inr image_url \<Rightarrow>
          (case rasterio_open st image_url of
             Inl e \<Rightarrow> Inl e
           | Inr src \<Rightarrow>
               (case get_window bnds idx img src of
                  Inl e \<Rightarrow> Inl e
                | Inr w \<Rightarrow>
                    (case rd src w of
                       Inl e \<Rightarrow> Inl e
                     | Inr data \<Rightarrow>
                         (let win_transform = window_transform src w;
                              prof = (profile src)
                                (''dtype'' \<mapsto> PStr ''float32'',
                                 ''height'' \<mapsto> PInt (int (nrows data)),
                                 ''width'' \<mapsto> PInt (int (ncols data)),
                                 ''blockxsize'' \<mapsto> PInt 256,
                                 ''blockysize'' \<mapsto> PInt 256,
                                 ''transform'' \<mapsto> PTransform win_transform);
                              localname = ''subset-'' @ basename (name src)
                          in case wr localname prof data of
                               Some e \<Rightarrow> Inl e
                             | None \<Rightarrow>
                                 Inr (localname,
                                      dir(localname \<mapsto>
                                            \<lparr>w_profile = prof, w_band1 = data\<rparr>)))))))"

subsection \<open>Well-formed files, the stacked dataset, and a small example\<close>

text \<open>
  The pixel array of a file has as many bands as the file counts, each of the height and
  width of the file.
\<close>

definition wf_file :: "raster_file \<Rightarrow> bool" where
  "wf_file f \<longleftrightarrow>
     length (bands f) = count f
     \<and> list_all (\<lambda>b. length b = height f \<and> list_all (\<lambda>r. length r = width f) b) (bands f)"

text \<open>
  The dataset that \<^verbatim>\<open>xr.concat\<close> returns for a first image opened with coordinates and
  further images opened without: everything spatial comes from the first image.
\<close>

definition stacked :: "raster_file \<Rightarrow> raster_file list \<Rightarrow> dataset" where
  "stacked f0 fs =
     \<lparr>band_coord = concat (map (\<lambda>f. map int [1..<count f + 1]) (f0 # fs)),
      y_coord = (if is_rectilinear (transform f0) then Some (y_centres f0) else None),
      x_coord = (if is_rectilinear (transform f0) then Some (x_centres f0) else None),
      y_size = height f0, x_size = width f0,
      unw = concat (map bands (f0 # fs)), mask_coord = None\<rparr>"

text \<open>
  Two catalog rows (those of the scenario keys) and small single-band rasters of one row
  and two columns with 30 m pixels: two on the same grid, one of the same shape on a grid
  whose origin lies 1000 m further east, and the first one again with the nodata value
  -9999.
\<close>

definition demo_rows :: "row list" where
  "demo_rows =
     [\<lparr>gs = ''p/b/20200101-20200115-unw.tif'',
       url = ''http://storage.googleapis.com/p/b/20200101-20200115-unw.tif'',
       date1 = Datetime \<lparr>year = 2020, month = 1, day = 1\<rparr>,
       date2 = Datetime \<lparr>year = 2020, month = 1, day = 15\<rparr>, dt = - 14\<rparr>,
      \<lparr>gs = ''p/b/20200201-20200215-unw.tif'',
       url = ''http://storage.googleapis.com/p/b/20200201-20200215-unw.tif'',
       date1 = Datetime \<lparr>year = 2020, month = 2, day = 1\<rparr>,
       date2 = Datetime \<lparr>year = 2020, month = 2, day = 15\<rparr>, dt = - 14\<rparr>]"

definition demo_profile :: "string \<rightharpoonup> pval" where
  "demo_profile =
     [''driver'' \<mapsto> PStr ''GTiff'', ''dtype'' \<mapsto> PStr ''float32'', ''nodata'' \<mapsto> PNone,
      ''width'' \<mapsto> PInt 2, ''height'' \<mapsto> PInt 1, ''count'' \<mapsto> PInt 1,
      ''crs'' \<mapsto> PStr ''EPSG:32605'', ''blockxsize'' \<mapsto> PInt 512,
      ''blockysize'' \<mapsto> PInt 512, ''tiled'' \<mapsto> PBool True]"

definition demo_file :: "string \<Rightarrow> rat \<Rightarrow> px list \<Rightarrow> raster_file" where
  "demo_file u x0 pixels =
     \<lparr>name = u, count = 1, width = 2, height = 1,
      transform = \<lparr>coef_a = 30, coef_b = 0, coef_c = x0, coef_d = 0, coef_e = - 30, coef_f = 0\<rparr>,
      crs = ''EPSG:32605'', nodata = None, profile = demo_profile,
      bands = [[pixels]]\<rparr>"

definition demo_first :: raster_file where
  "demo_first = demo_file ''http://storage.googleapis.com/p/b/20200101-20200115-unw.tif'' 0
                  [Val 0, Val 2]"

definition demo_second :: raster_file where
  "demo_second = demo_file ''http://storage.googleapis.com/p/b/20200201-20200215-unw.tif'' 0
                   [Val 3, Val 4]"

definition demo_shifted :: raster_file where
  "demo_shifted = demo_file ''http://storage.googleapis.com/p/b/20200201-20200215-unw.tif'' 1000
                    [Val 3, Val 4]"

definition demo_nodata :: raster_file where
  "demo_nodata = demo_first\<lparr>nodata := Some (Val (- 9999))\<rparr>"

definition nodata_store :: store where
  "nodata_store = [name demo_first \<mapsto> demo_nodata]"

definition demo_store :: store where
  "demo_store = [name demo_first \<mapsto> demo_first, name demo_second \<mapsto> demo_second]"

definition shifted_store :: store where
  "shifted_store = [name demo_first \<mapsto> demo_first, name demo_shifted \<mapsto> demo_shifted]"

text \<open>
  For the examples: the bounds of the first example raster and the cells rasterio gives for
  the two corners of those bounds (the upper left corner lies in row 0 and column 0, the
  lower right one in row 1 and column 2); a windowed read of band 1 for a window inside the
  raster; a writer that rejects an empty array; and a plot showing the first image with a
  given view.
\<close>

definition demo_bounds :: "raster_file \<Rightarrow> rat \<times> rat \<times> rat \<times> rat" where
  "demo_bounds src = (0, - 30, 60, 0)"

definition demo_index :: "raster_file \<Rightarrow> rat \<Rightarrow> rat \<Rightarrow> error + int \<times> int" where
  "demo_index src x y =
     (if x = 0 \<and> y = 0 then Inr (0, 0)
      else if x = 60 \<and> y = - 30 then Inr (1, 2)
      else Inl Unmodelled)"

definition demo_write :: "string \<Rightarrow> (string \<rightharpoonup> pval) \<Rightarrow> array2d \<Rightarrow> error option" where
  "demo_write localname prof data =
     (if nrows data = 0 \<or> ncols data = 0 then Some IOError else None)"

definition demo_read :: "raster_file \<Rightarrow> window \<Rightarrow> error + array2d" where
  "demo_read src w =
     Inr \<lparr>nrows = nat (win_height w), ncols = nat (win_width w),
          cells = map (\<lambda>i. map (\<lambda>j. hd (bands src) ! i ! j)
                                 [nat (col_off w)..<nat (col_off w + win_width w)])
                      [nat (row_off w)..<nat (row_off w + win_height w)]\<rparr>"

text \<open>The rasterised polygon of the example: column 1 lies outside, column 0 inside.\<close>

definition demo_outside :: "nat \<Rightarrow> nat \<Rightarrow> bool" where
  "demo_outside i j \<longleftrightarrow> j = 1"

definition demo_plot :: "(rat \<times> rat) option \<Rightarrow> (rat \<times> rat) option \<Rightarrow> plot" where
  "demo_plot xr yr =
     \<lparr>callback_args = 0,
      streams = [\<lparr>x_range = None, y_range = None\<rparr>, \<lparr>x_range = xr, y_range = yr\<rparr>]\<rparr>"

section \<open>The catalog\<close>

lemma traverse_Inr:
  "traverse f xs = Inr ys \<Longrightarrow> list_all2 (\<lambda>x y. f x = Inr y) xs ys"
proof (induction xs arbitrary: ys)
  case Nil
  then show ?case by simp
next
  case (Cons x xs)
  then show ?case by (auto split: sum.splits)
qed

lemma strptime_20200101: "strptime ''20200101'' = Inr \<lparr>year = 2020, month = 1, day = 1\<rparr>"
  by (simp add: strptime_def match_month_def match_day_def is_digit_def digit_val_def
      valid_date_def days_in_month_def)

lemma strptime_20200115: "strptime ''20200115'' = Inr \<lparr>year = 2020, month = 1, day = 15\<rparr>"
  by (simp add: strptime_def match_month_def match_day_def is_digit_def digit_val_def
      valid_date_def days_in_month_def)

lemma strptime_20200201: "strptime ''20200201'' = Inr \<lparr>year = 2020, month = 2, day = 1\<rparr>"
  by (simp add: strptime_def match_month_def match_day_def is_digit_def digit_val_def
      valid_date_def days_in_month_def)

lemma strptime_20200215: "strptime ''20200215'' = Inr \<lparr>year = 2020, month = 2, day = 15\<rparr>"
  by (simp add: strptime_def match_month_def match_day_def is_digit_def digit_val_def
      valid_date_def days_in_month_def is_leap_def)

lemma parse_first:
  "parse_name reverse_format ''p/b/20200101-20200115-unw.tif'' ''date1''
     = Inr (Datetime \<lparr>year = 2020, month = 1, day = 1\<rparr>)"
  "parse_name reverse_format ''p/b/20200101-20200115-unw.tif'' ''date2''
     = Inr (Datetime \<lparr>year = 2020, month = 1, day = 15\<rparr>)"
  by (simp_all add: parse_name_def reverse_format_def convert_date_def
      strptime_20200101 strptime_20200115)

lemma parse_second:
  "parse_name reverse_format ''p/b/20200201-20200215-unw.tif'' ''date1''
     = Inr (Datetime \<lparr>year = 2020, month = 2, day = 1\<rparr>)"
  "parse_name reverse_format ''p/b/20200201-20200215-unw.tif'' ''date2''
     = Inr (Datetime \<lparr>year = 2020, month = 2, day = 15\<rparr>)"
  by (simp_all add: parse_name_def reverse_format_def convert_date_def
      strptime_20200201 strptime_20200215)

lemma ordinals:
  "toordinal \<lparr>year = 2020, month = 1, day = 1\<rparr> = 737425"
  "toordinal \<lparr>year = 2020, month = 1, day = 15\<rparr> = 737439"
  "toordinal \<lparr>year = 2020, month = 2, day = 1\<rparr> = 737456"
  "toordinal \<lparr>year = 2020, month = 2, day = 15\<rparr> = 737470"
  by (simp_all add: toordinal_def days_before_year_def days_before_month_def
      days_in_month_def is_leap_def upt_rec)

lemma sort_scenario:
  "sort [''p/b/20200101-20200115-unw.tif'', ''p/b/20200201-20200215-unw.tif'']
     = [''p/b/20200101-20200115-unw.tif'', ''p/b/20200201-20200215-unw.tif'']"
  by simp

lemma sort_scenario_swapped:
  "sort [''p/b/20200201-20200215-unw.tif'', ''p/b/20200101-20200115-unw.tif'']
     = [''p/b/20200101-20200115-unw.tif'', ''p/b/20200201-20200215-unw.tif'']"
  by simp

lemma scenario_rows:
  "make_dataframe reverse_format
     [''p/b/20200101-20200115-unw.tif'', ''p/b/20200201-20200215-unw.tif'']
   = Inr [\<lparr>gs = ''p/b/20200101-20200115-unw.tif'',
           url = ''http://storage.googleapis.com/p/b/20200101-20200115-unw.tif'',
           date1 = Datetime \<lparr>year = 2020, month = 1, day = 1\<rparr>,
           date2 = Datetime \<lparr>year = 2020, month = 1, day = 15\<rparr>, dt = - 14\<rparr>,
          \<lparr>gs = ''p/b/20200201-20200215-unw.tif'',
           url = ''http://storage.googleapis.com/p/b/20200201-20200215-unw.tif'',
           date1 = Datetime \<lparr>year = 2020, month = 2, day = 1\<rparr>,
           date2 = Datetime \<lparr>year = 2020, month = 2, day = 15\<rparr>, dt = - 14\<rparr>]"
  unfolding make_dataframe_def sort_scenario
  by (simp add: parse_first parse_second ordinals [unfolded One_nat_def])

lemma scenario_rows_swapped:
  "make_dataframe reverse_format
     [''p/b/20200201-20200215-unw.tif'', ''p/b/20200101-20200115-unw.tif'']
   = Inr [\<lparr>gs = ''p/b/20200101-20200115-unw.tif'',
           url = ''http://storage.googleapis.com/p/b/20200101-20200115-unw.tif'',
           date1 = Datetime \<lparr>year = 2020, month = 1, day = 1\<rparr>,
           date2 = Datetime \<lparr>year = 2020, month = 1, day = 15\<rparr>, dt = - 14\<rparr>,
          \<lparr>gs = ''p/b/20200201-20200215-unw.tif'',
           url = ''http://storage.googleapis.com/p/b/20200201-20200215-unw.tif'',
           date1 = Datetime \<lparr>year = 2020, month = 2, day = 1\<rparr>,
           date2 = Datetime \<lparr>year = 2020, month = 2, day = 15\<rparr>, dt = - 14\<rparr>]"
  unfolding make_dataframe_def sort_scenario_swapped
  by (simp add: parse_first parse_second ordinals [unfolded One_nat_def])

text \<open>
  C5. For every catalog that \<^verbatim>\<open>make_dataframe\<close> produces, whatever the parser of the
  library returns: the two date columns of every row hold datetimes and the delta of the
  row is the first minus the second (in days), and the keys of the rows are the given keys
  in ascending order.
\<close>

theorem make_dataframe_delta_sorted:
  assumes "make_dataframe rf images = Inr df"
  shows "(\<forall>r \<in> set df. sub_val (date1 r) (date2 r) = Inr (dt r)
                     \<and> (\<exists>p q. date1 r = Datetime p \<and> date2 r = Datetime q
                               \<and> dt r = toordinal p - toordinal q))
         \<and> map gs df = sort images \<and> sorted (map gs df)"
proof -
  define keys where "keys = sort images"
  define urls where "urls = map (\<lambda>k. ''http://storage.googleapis.com/'' @ k) keys"
  from assms obtain d1s d2s dts where
    t1: "traverse (\<lambda>k. parse_name rf k ''date1'') keys = Inr d1s" and
    t2: "traverse (\<lambda>k. parse_name rf k ''date2'') keys = Inr d2s" and
    t3: "traverse (\<lambda>(p, q). sub_val p q) (zip d1s d2s) = Inr dts" and
    df: "df = map (\<lambda>(k, u, p, q, t). \<lparr>gs = k, url = u, date1 = p, date2 = q, dt = t\<rparr>)
                  (zip keys (zip urls (zip d1s (zip d2s dts))))"
    unfolding make_dataframe_def keys_def urls_def Let_def
    by (auto split: sum.splits)
  have l1: "length d1s = length keys"
    using traverse_Inr [OF t1] by (simp add: list_all2_lengthD)
  have l2: "length d2s = length keys"
    using traverse_Inr [OF t2] by (simp add: list_all2_lengthD)
  have a3: "list_all2 (\<lambda>pq t. (case pq of (p, q) \<Rightarrow> sub_val p q) = Inr t) (zip d1s d2s) dts"
    using traverse_Inr [OF t3] .
  have l3: "length dts = length keys"
    using list_all2_lengthD [OF a3] l1 l2 by simp
  have lu: "length urls = length keys"
    by (simp add: urls_def)
  have ldf: "length df = length keys"
    by (simp add: df l1 l2 l3 lu)
  have nth_df: "df ! i = \<lparr>gs = keys ! i, url = urls ! i, date1 = d1s ! i, date2 = d2s ! i,
                           dt = dts ! i\<rparr>" if "i < length keys" for i
    using that by (simp add: df l1 l2 l3 lu)
  have keys: "map gs df = keys"
    by (rule nth_equalityI) (simp_all add: ldf nth_df)
  have rows: "sub_val (date1 r) (date2 r) = Inr (dt r)
              \<and> (\<exists>p q. date1 r = Datetime p \<and> date2 r = Datetime q
                        \<and> dt r = toordinal p - toordinal q)" if "r \<in> set df" for r
  proof -
    from that obtain i where i: "i < length keys" and r: "r = df ! i"
      by (metis in_set_conv_nth ldf)
    have "(case (zip d1s d2s) ! i of (p, q) \<Rightarrow> sub_val p q) = Inr (dts ! i)"
      using list_all2_nthD [OF a3, of i] i l1 l2 by simp
    then have s: "sub_val (d1s ! i) (d2s ! i) = Inr (dts ! i)"
      using i l1 l2 by simp
    then obtain p q where "d1s ! i = Datetime p" "d2s ! i = Datetime q"
      "dts ! i = toordinal p - toordinal q"
      by (cases "d1s ! i"; cases "d2s ! i") auto
    then show ?thesis
      using s by (simp add: r nth_df [OF i])
  qed
  show ?thesis
    using rows keys by (simp add: keys_def)
qed

theorem make_dataframe_delta_sorted_witness:
  "map gs (projr (make_dataframe reverse_format
        [''p/b/20200201-20200215-unw.tif'', ''p/b/20200101-20200115-unw.tif'']))
     = [''p/b/20200101-20200115-unw.tif'', ''p/b/20200201-20200215-unw.tif'']
   \<and> map dt (projr (make_dataframe reverse_format
        [''p/b/20200201-20200215-unw.tif'', ''p/b/20200101-20200115-unw.tif'']))
     = [toordinal \<lparr>year = 2020, month = 1, day = 1\<rparr>
          - toordinal \<lparr>year = 2020, month = 1, day = 15\<rparr>,
        toordinal \<lparr>year = 2020, month = 2, day = 1\<rparr>
          - toordinal \<lparr>year = 2020, month = 2, day = 15\<rparr>]"
  using make_dataframe_delta_sorted [OF scenario_rows_swapped]
  by (simp add: scenario_rows_swapped sort_scenario_swapped)

text \<open>
  C9, as stated, fails: built from the two keys of the scenario, the first row has the
  delta 2020-01-01 minus 2020-01-15, which is minus 14 days and not 14 days.
\<close>

theorem catalog_scenario_delta_counterexample:
  "map dt (projr (make_dataframe reverse_format
       [''p/b/20200101-20200115-unw.tif'', ''p/b/20200201-20200215-unw.tif''])) = [- 14, - 14]
   \<and> dt (hd (projr (make_dataframe reverse_format
       [''p/b/20200101-20200115-unw.tif'', ''p/b/20200201-20200215-unw.tif'']))) \<noteq> 14"
  by (simp add: scenario_rows)

text \<open>
  C9, amended. The catalog built from the two keys has exactly two rows, in the order of
  the keys, with first dates 2020-01-01 and 2020-02-01, and the delta of the first row is
  minus 14 days (first date minus second date).
\<close>

theorem catalog_scenario:
  "\<exists>r1 r2. make_dataframe reverse_format
             [''p/b/20200101-20200115-unw.tif'', ''p/b/20200201-20200215-unw.tif'']
           = Inr [r1, r2]
     \<and> gs r1 = ''p/b/20200101-20200115-unw.tif''
     \<and> gs r2 = ''p/b/20200201-20200215-unw.tif''
     \<and> gs r1 \<le> gs r2
     \<and> date1 r1 = Datetime \<lparr>year = 2020, month = 1, day = 1\<rparr>
     \<and> date1 r2 = Datetime \<lparr>year = 2020, month = 2, day = 1\<rparr>
     \<and> date2 r1 = Datetime \<lparr>year = 2020, month = 1, day = 15\<rparr>
     \<and> dt r1 = - 14"
  unfolding scenario_rows by simp

section \<open>The lazy dataset\<close>

lemma traverse_all2:
  "list_all2 (\<lambda>x y. f x = Inr y) xs ys \<Longrightarrow> traverse f xs = Inr ys"
  by (induction xs ys rule: list_all2_induct) simp_all

lemma open_rasterio_Some:
  "st u = Some f \<Longrightarrow> open_rasterio st u p = Inr (data_array_of f p)"
  by (simp add: open_rasterio_def rasterio_open_def)

lemma remdups_more_than_one:
  "1 < length (remdups (n0 # ns)) \<longleftrightarrow> (\<exists>n \<in> set ns. n \<noteq> n0)"
proof
  assume gt: "1 < length (remdups (n0 # ns))"
  show "\<exists>n \<in> set ns. n \<noteq> n0"
  proof (rule ccontr)
    assume "\<not> (\<exists>n \<in> set ns. n \<noteq> n0)"
    then have "set (n0 # ns) = {n0}" by auto
    then have "card (set (n0 # ns)) = card {n0}" by (rule arg_cong)
    then have "card (set (n0 # ns)) = 1" by simp
    then show False
      using gt by (simp only: length_remdups_card_conv)
  qed
next
  assume "\<exists>n \<in> set ns. n \<noteq> n0"
  then obtain n where n: "n \<in> set ns" "n \<noteq> n0" by blast
  then have "{n0, n} \<subseteq> set (n0 # ns)" by simp
  then have "card {n0, n} \<le> card (set (n0 # ns))"
    by (intro card_mono) simp_all
  then show "1 < length (remdups (n0 # ns))"
    using n by (simp only: length_remdups_card_conv) simp
qed

lemma unlabelled_parts:
  "concat (map (\<lambda>(c, n). case c of None \<Rightarrow> [] | Some i \<Rightarrow> [i]) (map (\<lambda>n. (None, n)) ns)) = []"
  "concat (map (\<lambda>(c, n). case c of None \<Rightarrow> [n] | Some i \<Rightarrow> []) (map (\<lambda>n. (None, n)) ns)) = ns"
  by (induction ns) simp_all

lemma align_dim_head:
  assumes "\<And>i. c0 = Some i \<Longrightarrow> length i = n0"
  shows "align_dim ((c0, n0) # map (\<lambda>n. (None, n)) ns)
         = (if \<exists>n \<in> set ns. n \<noteq> n0 then Inl ValueError else Inr c0)"
proof (cases c0)
  case None
  show ?thesis
    using remdups_more_than_one [of n0 ns]
    by (simp add: align_dim_def None unlabelled_parts del: remdups.simps map_map)
next
  case (Some i)
  then show ?thesis
    using assms [OF Some]
    by (simp add: align_dim_def unlabelled_parts list_ex_iff del: map_map)
qed

lemma xr_concat_opened:
  "xr_concat (to_dataset (data_array_of f0 True) # map (\<lambda>f. to_dataset (data_array_of f False)) fs)
   = (if (\<exists>f \<in> set fs. height f \<noteq> height f0) \<or> (\<exists>f \<in> set fs. width f \<noteq> width f0)
      then Inl ValueError else Inr (stacked f0 fs))"
proof -
  let ?dss = "to_dataset (data_array_of f0 True) # map (\<lambda>f. to_dataset (data_array_of f False)) fs"
  have no_mask: "\<not> list_ex (\<lambda>ds. mask_coord ds \<noteq> None) ?dss"
    by (simp add: list_ex_iff to_dataset_def)
  have ys: "map (\<lambda>ds. (y_coord ds, y_size ds)) ?dss
            = (y_coord (stacked f0 fs), height f0) # map (\<lambda>n. (None, n)) (map height fs)"
    by (simp add: to_dataset_def data_array_of_def stacked_def Let_def)
  have xs: "map (\<lambda>ds. (x_coord ds, x_size ds)) ?dss
            = (x_coord (stacked f0 fs), width f0) # map (\<lambda>n. (None, n)) (map width fs)"
    by (simp add: to_dataset_def data_array_of_def stacked_def Let_def)
  have ay: "align_dim (map (\<lambda>ds. (y_coord ds, y_size ds)) ?dss)
            = (if \<exists>f \<in> set fs. height f \<noteq> height f0 then Inl ValueError
               else Inr (y_coord (stacked f0 fs)))"
    unfolding ys by (subst align_dim_head) (auto simp: stacked_def y_centres_def split: if_splits)
  have ax: "align_dim (map (\<lambda>ds. (x_coord ds, x_size ds)) ?dss)
            = (if \<exists>f \<in> set fs. width f \<noteq> width f0 then Inl ValueError
               else Inr (x_coord (stacked f0 fs)))"
    unfolding xs by (subst align_dim_head) (auto simp: stacked_def x_centres_def split: if_splits)
  show ?thesis
    unfolding xr_concat_def list.case using no_mask
    by (simp only: ay ax if_False)
       (auto simp add: to_dataset_def data_array_of_def stacked_def Let_def comp_def)
qed

lemma create_dataset_opened:
  assumes "st (url r0) = Some f0" and "list_all2 (\<lambda>r f. st (url r) = Some f) rest fs"
  shows "create_dataset st (r0 # rest)
         = (if (\<exists>f \<in> set fs. height f \<noteq> height f0) \<or> (\<exists>f \<in> set fs. width f \<noteq> width f0)
            then Inl ValueError else assign_band (stacked f0 fs) (Suc (length rest)))"
proof -
  have "list_all2 (\<lambda>r da. open_rasterio st (url r) False = Inr da) rest
          (map (\<lambda>f. data_array_of f False) fs)"
    using assms(2) by (simp add: list_all2_map2 open_rasterio_Some list_all2_mono)
  then have tr: "traverse (\<lambda>r. open_rasterio st (url r) False) rest
                 = Inr (map (\<lambda>f. data_array_of f False) fs)"
    by (rule traverse_all2)
  show ?thesis
    unfolding create_dataset_def
    using assms(1) by (simp add: open_rasterio_Some tr xr_concat_opened comp_def)
qed

lemma length_concat_singletons:
  "\<forall>x \<in> set xs. length (g x) = 1 \<Longrightarrow> length (concat (map g xs)) = length xs"
  by (induction xs) simp_all

lemma demo_opens:
  "list_all2 (\<lambda>r f. demo_store (url r) = Some f) demo_rows [demo_first, demo_second]"
  "list_all2 (\<lambda>r f. shifted_store (url r) = Some f) demo_rows [demo_first, demo_shifted]"
  by (simp_all add: demo_rows_def demo_store_def shifted_store_def demo_first_def
      demo_second_def demo_shifted_def demo_file_def)

lemma create_dataset_files:
  assumes "list_all2 (\<lambda>r f. st (url r) = Some f) df (f0 # fs)"
  shows "create_dataset st df
         = (if (\<exists>f \<in> set fs. height f \<noteq> height f0) \<or> (\<exists>f \<in> set fs. width f \<noteq> width f0)
            then Inl ValueError else assign_band (stacked f0 fs) (length df))"
proof -
  from assms obtain r0 rest where df: "df = r0 # rest" and o0: "st (url r0) = Some f0"
    and orest: "list_all2 (\<lambda>r f. st (url r) = Some f) rest fs"
    by (auto simp: list_all2_Cons2)
  show ?thesis
    unfolding df create_dataset_opened [OF o0 orest] by simp
qed

text \<open>
  C6. A catalog of N rows (N at least 1) whose images are single-band files of one common
  height and width gives a dataset whose band axis has length N and is labelled
  \<open>0, \<dots>, N - 1\<close>, whose y and x sizes are the height and width of the images, and whose
  every band is an array of that height and width.
\<close>

theorem create_dataset_axis_and_shape:
  assumes "df \<noteq> []"
    and "list_all2 (\<lambda>r f. st (url r) = Some f) df fs"
    and "\<forall>f \<in> set fs. wf_file f \<and> count f = 1 \<and> height f = h \<and> width f = w"
  shows "\<exists>ds. create_dataset st df = Inr ds
              \<and> length (unw ds) = length df
              \<and> band_coord ds = map int [0..<length df]
              \<and> y_size ds = h \<and> x_size ds = w
              \<and> (\<forall>img \<in> set (unw ds). length img = h \<and> (\<forall>r \<in> set img. length r = w))"
proof -
  from assms(1,2) obtain r0 rest f0 fs' where
    df: "df = r0 # rest" and fs: "fs = f0 # fs'" and
    o0: "st (url r0) = Some f0" and
    orest: "list_all2 (\<lambda>r f. st (url r) = Some f) rest fs'"
    by (cases df; cases fs) auto
  have same: "\<not> ((\<exists>f \<in> set fs'. height f \<noteq> height f0) \<or> (\<exists>f \<in> set fs'. width f \<noteq> width f0))"
    using assms(3) by (simp add: fs)
  have len: "length (concat (map bands (f0 # fs'))) = length (f0 # fs')"
    using assms(3) by (intro length_concat_singletons) (simp add: fs wf_file_def)
  have lfs: "length fs' = length rest"
    using orest by (simp add: list_all2_lengthD)
  have n: "length (unw (stacked f0 fs')) = Suc (length rest)"
    using len lfs by (simp add: stacked_def)
  have cd: "create_dataset st df
            = Inr ((stacked f0 fs')\<lparr>band_coord := map int [0..<Suc (length rest)]\<rparr>)"
    unfolding df create_dataset_opened [OF o0 orest]
    using same n by (simp add: assign_band_def)
  have shapes: "length img = h \<and> (\<forall>r \<in> set img. length r = w)"
    if "img \<in> set (unw (stacked f0 fs'))" for img
  proof -
    from that obtain f where "f \<in> set fs" "img \<in> set (bands f)"
      by (auto simp: stacked_def fs)
    then show ?thesis
      using assms(3) by (auto simp: wf_file_def list_all_iff)
  qed
  let ?ds = "(stacked f0 fs')\<lparr>band_coord := map int [0..<Suc (length rest)]\<rparr>"
  have "length (unw ?ds) = length df"
    using n by (simp add: df)
  moreover have "band_coord ?ds = map int [0..<length df]"
    by (simp only: df list.size) simp
  moreover have "y_size ?ds = h \<and> x_size ?ds = w"
    using assms(3) by (simp add: fs stacked_def)
  moreover have "\<forall>img \<in> set (unw ?ds). length img = h \<and> (\<forall>r \<in> set img. length r = w)"
    using shapes by simp
  ultimately show ?thesis
    using cd by blast
qed

theorem create_dataset_axis_and_shape_witness:
  "length (unw (projr (create_dataset demo_store demo_rows))) = 2
   \<and> band_coord (projr (create_dataset demo_store demo_rows)) = [0, 1]
   \<and> y_size (projr (create_dataset demo_store demo_rows)) = 1
   \<and> x_size (projr (create_dataset demo_store demo_rows)) = 2"
proof -
  have ne: "demo_rows \<noteq> []"
    by (simp add: demo_rows_def)
  have files: "\<forall>f \<in> set [demo_first, demo_second].
                 wf_file f \<and> count f = 1 \<and> height f = 1 \<and> width f = 2"
    by (simp add: wf_file_def demo_first_def demo_second_def demo_file_def)
  have len: "length demo_rows = 2"
    by (simp add: demo_rows_def)
  have upt: "map int [0..<2] = [0, 1]"
    by (simp add: upt_rec)
  show ?thesis
    using create_dataset_axis_and_shape [OF ne demo_opens(1) files]
    by (auto simp: len upt)
qed

text \<open>
  C1, as stated, fails: the second image of the example lies on a grid whose origin is
  1000 m east of the first image's grid, with the same height and width. Dataset
  construction succeeds, and the second image is stacked under the x coordinates 15 and 45
  of the first image.
\<close>

theorem create_dataset_shifted_grid_counterexample:
  "grid demo_shifted \<noteq> grid demo_first
   \<and> create_dataset shifted_store demo_rows
     = Inr \<lparr>band_coord = [0, 1], y_coord = Some [- 15], x_coord = Some [15, 45],
            y_size = 1, x_size = 2,
            unw = [[[Val 0, Val 2]], [[Val 3, Val 4]]], mask_coord = None\<rparr>"
proof -
  have len: "length demo_rows = 2"
    by (simp add: demo_rows_def)
  have upt: "[0..<2] = [0, 1]" "[0..<1] = [0]"
    by (simp_all add: upt_rec)
  have "stacked demo_first [demo_shifted]
        = \<lparr>band_coord = [1, 1], y_coord = Some [- 15], x_coord = Some [15, 45],
           y_size = 1, x_size = 2,
           unw = [[[Val 0, Val 2]], [[Val 3, Val 4]]], mask_coord = None\<rparr>"
    by (simp add: stacked_def demo_first_def demo_shifted_def demo_file_def is_rectilinear_def
        x_centres_def y_centres_def apply_affine_def upt)
  then have "create_dataset shifted_store demo_rows
        = Inr \<lparr>band_coord = [0, 1], y_coord = Some [- 15], x_coord = Some [15, 45],
           y_size = 1, x_size = 2,
           unw = [[[Val 0, Val 2]], [[Val 3, Val 4]]], mask_coord = None\<rparr>"
    unfolding create_dataset_files [OF demo_opens(2)]
    by (simp add: len assign_band_def upt demo_first_def demo_shifted_def demo_file_def)
  moreover have "grid demo_shifted \<noteq> grid demo_first"
    by (simp add: grid_def demo_first_def demo_shifted_def demo_file_def)
  ultimately show ?thesis by simp
qed

text \<open>
  C1, amended. When every image of the catalog opens and some image after the first has a
  height or a width different from the first image's, the concatenation raises
  \<^verbatim>\<open>ValueError\<close> and no dataset is built. (The position and the pixel size of the grid of
  an image after the first are never looked at.)
\<close>

theorem create_dataset_shape_mismatch_fails:
  assumes "list_all2 (\<lambda>r f. st (url r) = Some f) (r0 # rest) (f0 # fs)"
    and "\<exists>f \<in> set fs. shape f \<noteq> shape f0"
  shows "create_dataset st (r0 # rest) = Inl ValueError"
proof -
  from assms(1) have o0: "st (url r0) = Some f0"
    and orest: "list_all2 (\<lambda>r f. st (url r) = Some f) rest fs"
    by simp_all
  from assms(2) have "(\<exists>f \<in> set fs. height f \<noteq> height f0) \<or> (\<exists>f \<in> set fs. width f \<noteq> width f0)"
    by (auto simp: shape_def)
  then show ?thesis
    unfolding create_dataset_opened [OF o0 orest] by simp
qed

theorem create_dataset_shape_mismatch_fails_witness:
  "create_dataset [name demo_first \<mapsto> demo_first,
                   name demo_second \<mapsto> demo_second\<lparr>width := 3, bands := [[[Val 3, Val 4, Val 5]]]\<rparr>]
     demo_rows = Inl ValueError"
proof -
  let ?wide = "demo_second\<lparr>width := 3, bands := [[[Val 3, Val 4, Val 5]]]\<rparr>"
  let ?st = "[name demo_first \<mapsto> demo_first, name demo_second \<mapsto> ?wide]"
  have rows: "demo_rows = hd demo_rows # tl demo_rows"
    by (simp add: demo_rows_def)
  have opens: "list_all2 (\<lambda>r f. ?st (url r) = Some f) (hd demo_rows # tl demo_rows)
                 (demo_first # [?wide])"
    by (simp add: demo_rows_def demo_first_def demo_second_def demo_file_def)
  have differs: "\<exists>f \<in> set [?wide]. shape f \<noteq> shape demo_first"
    by (simp add: shape_def demo_first_def demo_second_def demo_file_def)
  have "create_dataset ?st (hd demo_rows # tl demo_rows) = Inl ValueError"
    by (rule create_dataset_shape_mismatch_fails [OF opens differs])
  then show ?thesis
    by (simp only: rows [symmetric])
qed

section \<open>Point selection\<close>

lemma nearest_scan:
  assumes "0 < n"
  shows "fold (\<lambda>j i. if closer xs t j i then j else i) [1..<n] 0 < n
         \<and> (\<forall>j < n. \<not> closer xs t j (fold (\<lambda>j i. if closer xs t j i then j else i) [1..<n] 0))"
  using assms
proof (induction n)
  case 0
  then show ?case by simp
next
  case (Suc n)
  show ?case
  proof (cases "n = 0")
    case True
    then show ?thesis by (simp add: closer_def)
  next
    case False
    let ?r = "fold (\<lambda>j i. if closer xs t j i then j else i) [1..<n] 0"
    from False Suc.IH have r: "?r < n" and best: "\<forall>j < n. \<not> closer xs t j ?r"
      by simp_all
    have upt: "[1..<Suc n] = [1..<n] @ [n]"
      using False by simp
    have step: "fold (\<lambda>j i. if closer xs t j i then j else i) [1..<Suc n] 0
                = (if closer xs t n ?r then n else ?r)"
      by (simp only: upt fold_append comp_apply fold_simps)
    show ?thesis
    proof (cases "closer xs t n ?r")
      case True
      have "\<not> closer xs t j n" if "j < Suc n" for j
      proof (cases "j = n")
        case True
        then show ?thesis by (simp add: closer_def)
      next
        case False
        with that have "j < n" by simp
        with best have "\<not> closer xs t j ?r" by simp
        with True show ?thesis
          unfolding closer_def by linarith
      qed
      then show ?thesis
        using True by (simp only: step if_True) simp
    next
      case False
      have "\<not> closer xs t j ?r" if "j < Suc n" for j
        using that best False by (cases "j = n") simp_all
      then show ?thesis
        using False r by (simp only: step if_False) simp
    qed
  qed
qed

lemma nearest_index_Inr:
  assumes "nearest_index xs t = Inr i"
  shows "i < length xs \<and> (\<forall>j < length xs. \<bar>xs ! i - t\<bar> \<le> \<bar>xs ! j - t\<bar>)"
proof -
  from assms have ne: "xs \<noteq> []"
    and i: "i = fold (\<lambda>j i. if closer xs t j i then j else i) [1..<length xs] 0"
    by (auto simp: nearest_index_def split: if_splits)
  have "0 < length xs" using ne by simp
  from nearest_scan [OF this, of xs t]
  have lt: "i < length xs" and best: "\<forall>j < length xs. \<not> closer xs t j i"
    unfolding i by simp_all
  have "\<bar>xs ! i - t\<bar> \<le> \<bar>xs ! j - t\<bar>" if "j < length xs" for j
    using best that unfolding closer_def by (meson not_less)
  then show ?thesis
    using lt by simp
qed

lemma nearest_index_total:
  assumes "xs \<noteq> []" and "sorted_wrt (<) xs \<or> sorted_wrt (>) xs"
  shows "\<exists>i. nearest_index xs t = Inr i"
  using assms by (simp add: nearest_index_def)

lemma concat_single_bands:
  "\<forall>f \<in> set fs. length (bands f) = 1 \<Longrightarrow> concat (map bands fs) = map (\<lambda>f. hd (bands f)) fs"
proof (induction fs)
  case Nil
  then show ?case by simp
next
  case (Cons g gs)
  then obtain b where "bands g = [b]"
    by (cases "bands g") auto
  with Cons show ?case by simp
qed

lemma centres_north_up:
  assumes "coef_b (transform f) = 0" and "coef_d (transform f) = 0"
    and "0 < coef_a (transform f)" and "coef_e (transform f) < 0"
  shows "is_rectilinear (transform f)"
    and "sorted_wrt (<) (x_centres f)" and "sorted_wrt (>) (y_centres f)"
    and "length (x_centres f) = width f" and "length (y_centres f) = height f"
proof -
  show "is_rectilinear (transform f)"
    using assms by (simp add: is_rectilinear_def)
  have "sorted_wrt (\<lambda>i j. coef_a (transform f) * (of_nat i + 1 / 2)
                           < coef_a (transform f) * (of_nat j + 1 / 2)) [0..<width f]"
    using assms(3) by (intro sorted_wrt_mono_rel [OF _ sorted_wrt_upt]) simp
  then show "sorted_wrt (<) (x_centres f)"
    by (simp add: x_centres_def apply_affine_def sorted_wrt_map)
  have "sorted_wrt (\<lambda>i j. coef_e (transform f) * (of_nat i + 1 / 2)
                           > coef_e (transform f) * (of_nat j + 1 / 2)) [0..<height f]"
    using assms(4) by (intro sorted_wrt_mono_rel [OF _ sorted_wrt_upt]) simp
  then show "sorted_wrt (>) (y_centres f)"
    by (simp add: y_centres_def apply_affine_def sorted_wrt_map)
  show "length (x_centres f) = width f" "length (y_centres f) = height f"
    by (simp_all add: x_centres_def y_centres_def)
qed

text \<open>
  C2. A catalog of single-band images of one common height and width, the first of them
  north-up (no rotation, positive pixel width, negative pixel height) and not empty: the
  dataset is built, and for every target (x, y) the selection returns a result. It picks one
  column and one row of the grid, each the one whose coordinate is closest to the target
  among all of the axis; the result has exactly one value per catalog row, labelled
  \<open>0, \<dots>, N - 1\<close>, and its k-th value is the stored pixel of the image of the k-th catalog
  row at that row and column (a stored value, not an interpolated one).
\<close>

theorem sel_nearest_point:
  assumes "list_all2 (\<lambda>r f. st (url r) = Some f) df (f0 # fs)"
    and "\<forall>f \<in> set (f0 # fs). length (bands f) = 1 \<and> height f = height f0 \<and> width f = width f0"
    and "coef_b (transform f0) = 0" and "coef_d (transform f0) = 0"
    and "0 < coef_a (transform f0)" and "coef_e (transform f0) < 0"
    and "0 < width f0" and "0 < height f0"
  shows "\<exists>ds ts ix iy.
           create_dataset st df = Inr ds \<and> sel_nearest ds xcen ycen = Inr ts
           \<and> x_coord ds = Some (x_centres f0) \<and> y_coord ds = Some (y_centres f0)
           \<and> ix < width f0 \<and> iy < height f0
           \<and> (\<forall>j < width f0. \<bar>x_centres f0 ! ix - xcen\<bar> \<le> \<bar>x_centres f0 ! j - xcen\<bar>)
           \<and> (\<forall>j < height f0. \<bar>y_centres f0 ! iy - ycen\<bar> \<le> \<bar>y_centres f0 ! j - ycen\<bar>)
           \<and> ts_x ts = x_centres f0 ! ix \<and> ts_y ts = y_centres f0 ! iy
           \<and> length (ts_unw ts) = length df
           \<and> ts_band ts = map int [0..<length df]
           \<and> (\<forall>k < length df. ts_unw ts ! k = hd (bands ((f0 # fs) ! k)) ! iy ! ix)"
proof -
  note c = centres_north_up [OF assms(3-6)]
  let ?ds = "(stacked f0 fs)\<lparr>band_coord := map int [0..<length df]\<rparr>"
  have lens: "length (f0 # fs) = length df"
    using assms(1) by (simp add: list_all2_lengthD)
  have unw: "unw ?ds = map (\<lambda>f. hd (bands f)) (f0 # fs)"
    using concat_single_bands [of "f0 # fs"] assms(2) by (simp add: stacked_def)
  have same: "\<not> ((\<exists>f \<in> set fs. height f \<noteq> height f0) \<or> (\<exists>f \<in> set fs. width f \<noteq> width f0))"
    using assms(2) by simp
  have "length (unw (stacked f0 fs)) = length df"
    using unw lens by simp
  then have cd: "create_dataset st df = Inr ?ds"
    unfolding create_dataset_files [OF assms(1)] using same by (simp add: assign_band_def)
  have xs: "x_coord ?ds = Some (x_centres f0)" and ys: "y_coord ?ds = Some (y_centres f0)"
    using c(1) by (simp_all add: stacked_def)
  have "x_centres f0 \<noteq> []" "y_centres f0 \<noteq> []"
    using assms(7,8) c(4,5) by auto
  then obtain ix iy where ix: "nearest_index (x_centres f0) xcen = Inr ix"
    and iy: "nearest_index (y_centres f0) ycen = Inr iy"
    using nearest_index_total c(2,3) by blast
  let ?ts = "\<lparr>ts_x = x_centres f0 ! ix, ts_y = y_centres f0 ! iy, ts_band = band_coord ?ds,
              ts_unw = map (\<lambda>img. img ! iy ! ix) (unw ?ds)\<rparr>"
  have sel: "sel_nearest ?ds xcen ycen = Inr ?ts"
    by (simp only: sel_nearest_def xs ys ix iy option.case sum.case)
  have vals: "\<forall>k < length df. ts_unw ?ts ! k = hd (bands ((f0 # fs) ! k)) ! iy ! ix"
  proof (intro allI impI)
    fix k assume "k < length df"
    then show "ts_unw ?ts ! k = hd (bands ((f0 # fs) ! k)) ! iy ! ix"
      using lens unfolding unw by (cases k) simp_all
  qed
  have len: "length (ts_unw ?ts) = length df"
    using lens by (simp add: unw)
  have lab: "ts_band ?ts = map int [0..<length df]"
    by simp
  have tx: "ts_x ?ts = x_centres f0 ! ix" and ty: "ts_y ?ts = y_centres f0 ! iy"
    by simp_all
  from nearest_index_Inr [OF ix] c(4)
  have nx: "ix < width f0"
    "\<forall>j < width f0. \<bar>x_centres f0 ! ix - xcen\<bar> \<le> \<bar>x_centres f0 ! j - xcen\<bar>"
    by simp_all
  from nearest_index_Inr [OF iy] c(5)
  have ny: "iy < height f0"
    "\<forall>j < height f0. \<bar>y_centres f0 ! iy - ycen\<bar> \<le> \<bar>y_centres f0 ! j - ycen\<bar>"
    by simp_all
  from cd sel xs ys nx ny tx ty len lab vals show ?thesis
    by (intro exI [of _ ?ds] exI [of _ ?ts] exI [of _ ix] exI [of _ iy]) (intro conjI; assumption)
qed

lemma demo_dataset:
  "create_dataset demo_store demo_rows
     = Inr \<lparr>band_coord = [0, 1], y_coord = Some [- 15], x_coord = Some [15, 45],
            y_size = 1, x_size = 2,
            unw = [[[Val 0, Val 2]], [[Val 3, Val 4]]], mask_coord = None\<rparr>"
proof -
  have len: "length demo_rows = 2"
    by (simp add: demo_rows_def)
  have upt: "[0..<2] = [0, 1]" "[0..<1] = [0]"
    by (simp_all add: upt_rec)
  have "stacked demo_first [demo_second]
        = \<lparr>band_coord = [1, 1], y_coord = Some [- 15], x_coord = Some [15, 45],
           y_size = 1, x_size = 2,
           unw = [[[Val 0, Val 2]], [[Val 3, Val 4]]], mask_coord = None\<rparr>"
    by (simp add: stacked_def demo_first_def demo_second_def demo_file_def is_rectilinear_def
        x_centres_def y_centres_def apply_affine_def upt)
  then show ?thesis
    unfolding create_dataset_files [OF demo_opens(1)]
    by (simp add: len assign_band_def upt demo_first_def demo_second_def demo_file_def)
qed

lemma nearest_demo:
  "nearest_index [15, 45] 40 = Inr 1"
  "nearest_index [- 15] (- 10) = Inr 0"
  "nearest_index [15, 45] 1000000 = Inr 1"
  "nearest_index [- 15] 5000000 = Inr 0"
  by (simp_all add: nearest_index_def closer_def)

lemma demo_sel:
  "sel_nearest \<lparr>band_coord = [0, 1], y_coord = Some [- 15], x_coord = Some [15, 45],
                y_size = 1, x_size = 2,
                unw = [[[Val 0, Val 2]], [[Val 3, Val 4]]], mask_coord = None\<rparr> 40 (- 10)
   = Inr \<lparr>ts_x = 45, ts_y = - 15, ts_band = [0, 1], ts_unw = [Val 2, Val 4]\<rparr>"
  by (simp add: sel_nearest_def nearest_demo)

theorem sel_nearest_point_witness:
  "sel_nearest (projr (create_dataset demo_store demo_rows)) 40 (- 10)
     = Inr \<lparr>ts_x = 45, ts_y = - 15, ts_band = [0, 1], ts_unw = [Val 2, Val 4]\<rparr>
   \<and> length [Val 2, Val 4 :: px] = length demo_rows
   \<and> [Val 2, Val 4] ! 0 = hd (bands demo_first) ! 0 ! 1
   \<and> [Val 2, Val 4] ! 1 = hd (bands demo_second) ! 0 ! 1"
proof -
  have files: "\<forall>f \<in> set (demo_first # [demo_second]).
                 length (bands f) = 1 \<and> height f = height demo_first
                 \<and> width f = width demo_first"
    by (simp add: demo_first_def demo_second_def demo_file_def)
  have north: "coef_b (transform demo_first) = 0" "coef_d (transform demo_first) = 0"
    "0 < coef_a (transform demo_first)" "coef_e (transform demo_first) < 0"
    "0 < width demo_first" "0 < height demo_first"
    by (simp_all add: demo_first_def demo_file_def)
  from sel_nearest_point [OF demo_opens(1) files north, of 40 "- 10"]
  obtain ds ts where r: "create_dataset demo_store demo_rows = Inr ds"
    "sel_nearest ds 40 (- 10) = Inr ts" "length (ts_unw ts) = length demo_rows"
    by (elim exE conjE) (rule that; assumption)
  have sel: "sel_nearest (projr (create_dataset demo_store demo_rows)) 40 (- 10)
             = Inr \<lparr>ts_x = 45, ts_y = - 15, ts_band = [0, 1], ts_unw = [Val 2, Val 4]\<rparr>"
    unfolding demo_dataset sum.sel by (rule demo_sel)
  with r have "ts = \<lparr>ts_x = 45, ts_y = - 15, ts_band = [0, 1], ts_unw = [Val 2, Val 4]\<rparr>"
    by simp
  with r(3) have len: "length [Val 2, Val 4 :: px] = length demo_rows"
    by simp
  have "[Val 2, Val 4] ! 0 = hd (bands demo_first) ! 0 ! 1"
    "[Val 2, Val 4] ! 1 = hd (bands demo_second) ! 0 ! 1"
    by (simp_all add: demo_first_def demo_second_def demo_file_def)
  with len sel show ?thesis
    by (intro conjI)
qed






section \<open>Windows\<close>

lemma window_transform_coefs:
  "coef_a (window_transform src w) = coef_a (transform src)"
  "coef_b (window_transform src w) = coef_b (transform src)"
  "coef_d (window_transform src w) = coef_d (transform src)"
  "coef_e (window_transform src w) = coef_e (transform src)"
  "(coef_c (window_transform src w), coef_f (window_transform src w))
     = apply_affine (transform src) (of_int (col_off w)) (of_int (row_off w))"
  by (simp_all add: window_transform_def apply_affine_def)

text \<open>
  C7. When the source of the displayed image opens, the window is computed, the windowed
  read succeeds and the library writes the file, \<^verbatim>\<open>save_current_view\<close> returns the name
  \<^verbatim>\<open>subset-\<close> followed by the base name of the source; the directory then holds under that
  name a file with the data read from the window and is otherwise unchanged; the profile of
  that file has dtype float32, the height and width of the data, block sizes 256 and 256
  and the window transform, and agrees with the profile of the source on every other key,
  the coordinate reference system among them; the window transform has the coefficients
  a, b, d, e of the source transform and as origin the image of the window offset under the
  source transform.
\<close>

theorem save_current_view_profile_frame:
  assumes "get_src df img = Inr image_url" and "st image_url = Some src"
    and "get_window bnds idx img src = Inr w" and "rd src w = Inr data"
    and "wr (''subset-'' @ basename (name src))
            ((profile src)
               (''dtype'' \<mapsto> PStr ''float32'',
                ''height'' \<mapsto> PInt (int (nrows data)),
                ''width'' \<mapsto> PInt (int (ncols data)),
                ''blockxsize'' \<mapsto> PInt 256,
                ''blockysize'' \<mapsto> PInt 256,
                ''transform'' \<mapsto> PTransform (window_transform src w)))
            data = None"
  shows "\<exists>dir' out.
           save_current_view bnds idx rd wr st df img dir
             = Inr (''subset-'' @ basename (name src), dir')
           \<and> dir' (''subset-'' @ basename (name src)) = Some out
           \<and> (\<forall>n. n \<noteq> ''subset-'' @ basename (name src) \<longrightarrow> dir' n = dir n)
           \<and> w_band1 out = data
           \<and> w_profile out ''dtype'' = Some (PStr ''float32'')
           \<and> w_profile out ''height'' = Some (PInt (int (nrows data)))
           \<and> w_profile out ''width'' = Some (PInt (int (ncols data)))
           \<and> w_profile out ''blockxsize'' = Some (PInt 256)
           \<and> w_profile out ''blockysize'' = Some (PInt 256)
           \<and> w_profile out ''transform'' = Some (PTransform (window_transform src w))
           \<and> (\<forall>k. k \<notin> {''dtype'', ''height'', ''width'', ''blockxsize'', ''blockysize'',
                        ''transform''} \<longrightarrow> w_profile out k = profile src k)
           \<and> w_profile out ''crs'' = profile src ''crs''
           \<and> coef_a (window_transform src w) = coef_a (transform src)
           \<and> coef_b (window_transform src w) = coef_b (transform src)
           \<and> coef_d (window_transform src w) = coef_d (transform src)
           \<and> coef_e (window_transform src w) = coef_e (transform src)
           \<and> (coef_c (window_transform src w), coef_f (window_transform src w))
             = apply_affine (transform src) (of_int (col_off w)) (of_int (row_off w))"
proof -
  let ?out = "\<lparr>w_profile = (profile src)
          (''dtype'' \<mapsto> PStr ''float32'',
           ''height'' \<mapsto> PInt (int (nrows data)),
           ''width'' \<mapsto> PInt (int (ncols data)),
           ''blockxsize'' \<mapsto> PInt 256,
           ''blockysize'' \<mapsto> PInt 256,
           ''transform'' \<mapsto> PTransform (window_transform src w)),
         w_band1 = data\<rparr>"
  let ?name = "''subset-'' @ basename (name src)"
  let ?dir = "dir(?name \<mapsto> ?out)"
  have sv: "save_current_view bnds idx rd wr st df img dir = Inr (?name, ?dir)"
    unfolding save_current_view_def rasterio_open_def
    by (simp only: assms sum.case option.case Let_def)
  have d: "?dir ?name = Some ?out" "\<forall>n. n \<noteq> ?name \<longrightarrow> ?dir n = dir n"
    by simp_all
  have o: "w_band1 ?out = data"
    "w_profile ?out ''dtype'' = Some (PStr ''float32'')"
    "w_profile ?out ''height'' = Some (PInt (int (nrows data)))"
    "w_profile ?out ''width'' = Some (PInt (int (ncols data)))"
    "w_profile ?out ''blockxsize'' = Some (PInt 256)"
    "w_profile ?out ''blockysize'' = Some (PInt 256)"
    "w_profile ?out ''transform'' = Some (PTransform (window_transform src w))"
    "\<forall>k. k \<notin> {''dtype'', ''height'', ''width'', ''blockxsize'', ''blockysize'',
                        ''transform''} \<longrightarrow> w_profile ?out k = profile src k"
    "w_profile ?out ''crs'' = profile src ''crs''"
    by simp_all
  from sv d o window_transform_coefs [of src w] show ?thesis
    by (intro exI [of _ ?dir] exI [of _ ?out]) (intro conjI; assumption)
qed

lemma demo_window:
  "get_window demo_bounds demo_index (demo_plot None None) demo_first
     = Inr \<lparr>col_off = 0, row_off = 0, win_width = 2, win_height = 1\<rparr>"
  by (simp add: get_window_def demo_plot_def iloc_def demo_bounds_def demo_index_def
      new_window_def)

lemma demo_lookup:
  "demo_store (name demo_first) = Some demo_first"
  by (simp add: demo_store_def demo_first_def demo_second_def demo_file_def)

lemma demo_basename:
  "basename (name demo_first) = ''20200101-20200115-unw.tif''"
  by (simp add: basename_def demo_first_def demo_file_def)

theorem save_current_view_profile_frame_witness:
  "\<exists>dir' out. save_current_view demo_bounds demo_index demo_read demo_write demo_store demo_rows
                 (demo_plot None None) Map.empty
                 = Inr (''subset-20200101-20200115-unw.tif'', dir')
     \<and> dir' ''subset-20200101-20200115-unw.tif'' = Some out
     \<and> w_profile out ''blockxsize'' = Some (PInt 256)
     \<and> w_profile out ''dtype'' = Some (PStr ''float32'')
     \<and> w_profile out ''width'' = Some (PInt 2)
     \<and> w_profile out ''crs'' = Some (PStr ''EPSG:32605'')"
proof -
  let ?w = "\<lparr>col_off = 0, row_off = 0, win_width = 2, win_height = 1\<rparr>"
  let ?data = "\<lparr>nrows = 1, ncols = 2, cells = [[Val 0, Val 2]]\<rparr>"
  have src: "get_src demo_rows (demo_plot None None) = Inr (name demo_first)"
    by (simp add: get_src_def iloc_def demo_rows_def demo_plot_def demo_first_def demo_file_def)
  have rd: "demo_read demo_first ?w = Inr ?data"
    by (simp add: demo_read_def demo_first_def demo_file_def upt_rec)
  have wr: "demo_write (''subset-'' @ basename (name demo_first))
              ((profile demo_first)
                 (''dtype'' \<mapsto> PStr ''float32'',
                  ''height'' \<mapsto> PInt (int (nrows ?data)),
                  ''width'' \<mapsto> PInt (int (ncols ?data)),
                  ''blockxsize'' \<mapsto> PInt 256,
                  ''blockysize'' \<mapsto> PInt 256,
                  ''transform'' \<mapsto> PTransform (window_transform demo_first ?w)))
              ?data = None"
    by (simp add: demo_write_def)
  have crs: "profile demo_first ''crs'' = Some (PStr ''EPSG:32605'')"
    by (simp add: demo_first_def demo_file_def demo_profile_def)
  have nm: "''subset-'' @ basename (name demo_first) = ''subset-20200101-20200115-unw.tif''"
    by (simp add: demo_basename)
  from save_current_view_profile_frame
    [where df = demo_rows and img = "demo_plot None None" and image_url = "name demo_first"
       and st = demo_store and src = demo_first and bnds = demo_bounds and idx = demo_index
       and rd = demo_read and wr = demo_write and w = ?w and data = ?data
       and dir = Map.empty, OF src demo_lookup demo_window rd wr]
  obtain dir' out where
    g: "save_current_view demo_bounds demo_index demo_read demo_write demo_store demo_rows
          (demo_plot None None) Map.empty
          = Inr (''subset-'' @ basename (name demo_first), dir')"
       "dir' (''subset-'' @ basename (name demo_first)) = Some out"
       "w_profile out ''blockxsize'' = Some (PInt 256)"
       "w_profile out ''dtype'' = Some (PStr ''float32'')"
       "w_profile out ''width'' = Some (PInt (int (ncols ?data)))"
       "w_profile out ''crs'' = profile demo_first ''crs''"
    by (elim exE conjE) (rule that; assumption)
  from g(5) have wd: "w_profile out ''width'' = Some (PInt 2)"
    by simp
  from g(6) crs have c: "w_profile out ''crs'' = Some (PStr ''EPSG:32605'')"
    by simp
  from g(1,2) have
    "save_current_view demo_bounds demo_index demo_read demo_write demo_store demo_rows
       (demo_plot None None) Map.empty
       = Inr (''subset-20200101-20200115-unw.tif'', dir')"
    "dir' ''subset-20200101-20200115-unw.tif'' = Some out"
    by (simp_all only: nm)
  with g(3,4) wd c show ?thesis
    by (intro exI [of _ dir'] exI [of _ out] conjI)
qed

section \<open>The mask\<close>

lemma demo_mask:
  "mask_layer demo_store demo_rows demo_outside = Inr [[True, True]]"
proof -
  have upt: "[0..<2] = [0, 1]" "[0..<1] = [0]"
    by (simp_all add: upt_rec)
  show ?thesis
    by (simp add: mask_layer_def demo_rows_def demo_store_def rasterio_open_def rio_mask_def
        water_of_def demo_first_def demo_second_def demo_file_def demo_outside_def upt)
qed

text \<open>
  C3. The mask is not true exactly outside the polygon. In the example the first image
  has no nodata value and the values 0 and 2 in its one row; only column 1 lies outside the
  polygon. The mask comes out true in both columns: the pixel of column 0 lies inside the
  polygon and is marked all the same, because its own value is 0 and the mask is the
  comparison of the filled band with 0.
\<close>

theorem mask_layer_marks_inside_zero:
  "mask_layer demo_store demo_rows demo_outside = Inr [[True, True]]
   \<and> \<not> demo_outside 0 0
   \<and> hd (bands demo_first) ! 0 ! 0 = Val 0"
  using demo_mask by (simp add: demo_first_def demo_file_def demo_outside_def)

text \<open>
  The same comparison with 0 on a first image whose nodata value is -9999: the pixel outside
  the polygon is filled with -9999 and stays unmarked, the pixel inside is marked.
\<close>

lemma mask_nonzero_nodata_example:
  "mask_layer nodata_store demo_rows demo_outside = Inr [[True, False]]"
proof -
  have upt: "[0..<2] = [0, 1]" "[0..<1] = [0]"
    by (simp_all add: upt_rec)
  show ?thesis
    by (simp add: mask_layer_def demo_rows_def nodata_store_def demo_nodata_def
        rasterio_open_def rio_mask_def water_of_def demo_first_def demo_file_def
        demo_outside_def upt)
qed

lemma where_image_idem:
  "where_image m n_y n_x (where_image m n_y n_x img) = where_image m n_y n_x img"
  by (simp add: where_image_def)

text \<open>
  C4. On a dataset masked with an attached mask, attaching the same mask again and masking
  again both return the masked dataset unchanged; in particular the number of missing
  values does not change.
\<close>

theorem where_mask_idempotent:
  assumes "attach_mask ds water = Inr dm" and "where_mask dm = Inr masked"
  shows "attach_mask masked water = Inr masked
         \<and> where_mask masked = Inr masked
         \<and> count_missing (projr (where_mask masked)) = count_missing masked"
proof -
  from assms(1) have shape: "length water = y_size ds" "list_all (\<lambda>r. length r = x_size ds) water"
    and dm: "dm = ds\<lparr>mask_coord := Some water\<rparr>"
    by (auto simp: attach_mask_def split: if_splits)
  from assms(2) have masked:
    "masked = dm\<lparr>unw := map (where_image water (y_size ds) (x_size ds)) (unw dm)\<rparr>"
    by (simp add: where_mask_def dm)
  have again: "where_mask masked = Inr masked"
    by (simp add: where_mask_def masked dm where_image_idem comp_def)
  have "attach_mask masked water = Inr masked"
    using shape by (simp add: attach_mask_def masked dm)
  with again show ?thesis
    by simp
qed

theorem where_mask_idempotent_witness:
  "where_mask (projr (where_mask (projr (attach_mask
       (projr (create_dataset demo_store demo_rows)) [[True, False]]))))
   = Inr \<lparr>band_coord = [0, 1], y_coord = Some [- 15], x_coord = Some [15, 45],
          y_size = 1, x_size = 2,
          unw = [[[NaN, Val 2]], [[NaN, Val 4]]], mask_coord = Some [[True, False]]\<rparr>"
proof -
  let ?ds = "\<lparr>band_coord = [0, 1], y_coord = Some [- 15], x_coord = Some [15, 45],
          y_size = 1, x_size = 2,
          unw = [[[Val 0, Val 2]], [[Val 3, Val 4]]], mask_coord = None\<rparr>"
  let ?dm = "?ds\<lparr>mask_coord := Some [[True, False]]\<rparr>"
  let ?masked = "\<lparr>band_coord = [0, 1], y_coord = Some [- 15], x_coord = Some [15, 45],
          y_size = 1, x_size = 2,
          unw = [[[NaN, Val 2]], [[NaN, Val 4]]], mask_coord = Some [[True, False]]\<rparr>"
  have upt: "[0..<2] = [0, 1]" "[0..<1] = [0]"
    by (simp_all add: upt_rec)
  have a: "attach_mask ?ds [[True, False]] = Inr ?dm"
    by (simp add: attach_mask_def)
  have w: "where_mask ?dm = Inr ?masked"
    by (simp add: where_mask_def where_image_def upt)
  from where_mask_idempotent [OF a w] have "where_mask ?masked = Inr ?masked"
    by simp
  then show ?thesis
    unfolding demo_dataset sum.sel a w .
qed

end
